theory Spec2Isabelle
  imports Complex_Main
begin

section \<open>Values of the host language\<close>

text \<open>
  The module is \<^verbatim>\<open>src/routes/hotels.ts\<close>: five Express request handlers and the
  helper \<^verbatim>\<open>constructSearchQuery\<close>. JavaScript numbers are modelled as integers with
  one extra value for \<^verbatim>\<open>NaN\<close> (\<open>None\<close>); amounts, counts and page numbers stay far
  inside the range where doubles are exact.
\<close>

type_synonym number = "int option"

definition num_mul :: "number \<Rightarrow> number \<Rightarrow> number" where
  "num_mul a b = (case a of None \<Rightarrow> None | Some x \<Rightarrow> (case b of None \<Rightarrow> None | Some y \<Rightarrow> Some (x * y)))"

definition num_sub :: "number \<Rightarrow> number \<Rightarrow> number" where
  "num_sub a b = (case a of None \<Rightarrow> None | Some x \<Rightarrow> (case b of None \<Rightarrow> None | Some y \<Rightarrow> Some (x - y)))"

text \<open>A parsed JSON value; a missing property (\<^verbatim>\<open>undefined\<close>) is \<open>None\<close> of \<open>jval option\<close>.\<close>

datatype jval =
    JNull
  | JBool bool
  | JNum int
  | JStr string
  | JArr "jval list"
  | JObj "(string \<times> jval) list"

text \<open>
  A value of \<^verbatim>\<open>req.query\<close>: the query-string parser yields a string for a parameter
  given once and an array of strings for a parameter given several times.
\<close>

datatype qval = QStr string | QArr "string list"

fun join_comma :: "string list \<Rightarrow> string" where
  "join_comma [] = []"
| "join_comma [x] = x"
| "join_comma (x # y # ys) = x @ '','' @ join_comma (y # ys)"

fun show_nat :: "nat \<Rightarrow> string" where
  "show_nat n =
     (if n < 10 then [''0123456789'' ! n] else show_nat (n div 10) @ [''0123456789'' ! (n mod 10)])"

declare show_nat.simps [simp del]

definition show_int :: "int \<Rightarrow> string" where
  "show_int i = (if i < 0 then CHR ''-'' # show_nat (nat (- i)) else show_nat (nat i))"

text \<open>\<^verbatim>\<open>String(v)\<close>, as a template literal and \<^verbatim>\<open>Array.prototype.join\<close> apply it.\<close>

fun toString :: "jval \<Rightarrow> string" and toString_elems :: "jval list \<Rightarrow> string list" where
  "toString JNull = ''null''"
| "toString (JBool b) = (if b then ''true'' else ''false'')"
| "toString (JNum n) = show_int n"
| "toString (JStr s) = s"
| "toString (JArr xs) = join_comma (toString_elems xs)"
| "toString (JObj kvs) = ''[object Object]''"
| "toString_elems [] = []"
| "toString_elems (x # xs) = (if x = JNull then [] else toString x) # toString_elems xs"

definition toString_opt :: "jval option \<Rightarrow> string" where
  "toString_opt v = (case v of None \<Rightarrow> ''undefined'' | Some x \<Rightarrow> toString x)"

definition qToString :: "qval \<Rightarrow> string" where
  "qToString v = (case v of QStr s \<Rightarrow> s | QArr xs \<Rightarrow> join_comma xs)"

text \<open>Truthiness of a possibly absent query value: only \<^verbatim>\<open>undefined\<close> and \<^verbatim>\<open>""\<close> are falsy.\<close>

definition truthy :: "qval option \<Rightarrow> bool" where
  "truthy v = (case v of None \<Rightarrow> False | Some (QStr s) \<Rightarrow> s \<noteq> [] | Some (QArr xs) \<Rightarrow> True)"

subsection \<open>\<^verbatim>\<open>parseInt(s, 10)\<close>\<close>

definition is_ws :: "char \<Rightarrow> bool" where
  "is_ws c = (of_char c \<in> {9, 10, 11, 12, 13, 32 :: nat})"

definition is_digit :: "char \<Rightarrow> bool" where
  "is_digit c = (48 \<le> (of_char c :: nat) \<and> (of_char c :: nat) \<le> 57)"

definition digits_value :: "string \<Rightarrow> nat" where
  "digits_value ds = foldl (\<lambda>a c. 10 * a + (of_char c - 48)) 0 ds"

text \<open>
  Leading white space is skipped, one sign is read, then the longest run of decimal
  digits; with no digit the result is \<^verbatim>\<open>NaN\<close>. Only the ASCII white space characters
  are recognised here.
\<close>

definition parseInt :: "string \<Rightarrow> number" where
  "parseInt s =
     (let t = dropWhile is_ws s;
          neg = (t \<noteq> [] \<and> hd t = CHR ''-'');
          u = (if t \<noteq> [] \<and> (hd t = CHR ''-'' \<or> hd t = CHR ''+'') then tl t else t);
          ds = takeWhile is_digit u
      in if ds = [] then None
         else Some (if neg then - int (digits_value ds) else int (digits_value ds)))"

section \<open>The search filter\<close>

datatype regexp = RegExp string string

datatype condition =
    Or "(string \<times> regexp) list"
  | Gte number
  | Lte number
  | All "string list"
  | In_strings "string list"
  | In_numbers "number list"

text \<open>The filter object, as the list of its properties in insertion order.\<close>

type_synonym search_query = "(string \<times> condition) list"

datatype error = SyntaxError | DbError | StripeError

definition as_array :: "qval \<Rightarrow> string list" where
  "as_array v = (case v of QArr xs \<Rightarrow> xs | QStr s \<Rightarrow> [s])"

text \<open>
  \<^verbatim>\<open>constructSearchQuery\<close>. The \<^verbatim>\<open>RegExp\<close> constructor throws a SyntaxError on a
  pattern that is not a regular expression; which patterns are is the first argument.
\<close>

definition constructSearchQuery ::
  "(string \<Rightarrow> bool) \<Rightarrow> (string \<rightharpoonup> qval) \<Rightarrow> error + search_query" where
  "constructSearchQuery regex_ok queryParams =
     (if truthy (queryParams ''destination'') \<and> \<not> regex_ok (qToString (the (queryParams ''destination'')))
      then Inl SyntaxError
      else Inr (
        (if truthy (queryParams ''destination'')
         then [(''$or'', Or [(''city'', RegExp (qToString (the (queryParams ''destination''))) ''i''),
                             (''country'', RegExp (qToString (the (queryParams ''destination''))) ''i'')])]
         else []) @
        (if truthy (queryParams ''adultCount'')
         then [(''adultCount'', Gte (parseInt (qToString (the (queryParams ''adultCount'')))))]
         else []) @
        (if truthy (queryParams ''childCount'')
         then [(''childCount'', Gte (parseInt (qToString (the (queryParams ''childCount'')))))]
         else []) @
        (if truthy (queryParams ''facilities'')
         then [(''facilities'', All (as_array (the (queryParams ''facilities''))))]
         else []) @
        (if truthy (queryParams ''types'')
         then [(''type'', In_strings (as_array (the (queryParams ''types''))))]
         else []) @
        (if truthy (queryParams ''stars'')
         then [(''starRating'', In_numbers (map parseInt (as_array (the (queryParams ''stars'')))))]
         else []) @
        (if truthy (queryParams ''maxPrice'')
         then [(''pricePerNight'', Lte (parseInt (qToString (the (queryParams ''maxPrice'')))))]
         else [])))"

section \<open>Documents, provider objects and the effects of a request\<close>

text \<open>
  Modelled from the spec: \<^verbatim>\<open>BookingType\<close> of \<^verbatim>\<open>../shared/types\<close> is not among the
  sources. The spec calls a booking a sub-record appended to a hotel's bookings list; here
  it is the object the confirm handler builds, the request body with one property
  replaced.
\<close>

type_synonym booking = "string \<rightharpoonup> jval"

text \<open>
  Modelled from the spec: the schema of \<^verbatim>\<open>../models/hotel\<close> is not among the sources.
  The spec calls a hotel document a persisted record of name, location, price, facilities
  and bookings; the fields here are those the module reads, sorts by or names in a
  filter.
\<close>

record hotel =
  doc_id :: string
  name :: string
  city :: string
  country :: string
  adultCount :: int
  childCount :: int
  facilities :: "string list"
  hotel_type :: string
  starRating :: int
  pricePerNight :: int
  lastUpdated :: int
  bookings :: "booking list"

datatype sort_options = NoSort | StarRatingDesc | PricePerNightAsc | PricePerNightDesc

record address =
  line1 :: string
  addr_city :: string
  state :: string
  addr_country :: string
  postal_code :: string

record customer_params =
  cust_name :: string
  cust_address :: address

record customer =
  customer_id :: string

record payment_intent_params =
  amount :: number
  currency :: string
  pi_customer :: string
  description :: string
  pi_metadata :: "(string \<times> string) list"

record payment_intent =
  intent_id :: string
  client_secret :: "string option"
  metadata :: "(string \<times> string) list"
  status :: string

text \<open>Every call a handler makes to the database or to the payment provider, with its arguments.\<close>

datatype call =
    DbFind search_query sort_options number nat
  | DbCountDocuments search_query
  | DbFindAll
  | DbFindById string
  | DbFindOneAndUpdate string booking
  | StripeCustomersCreate customer_params
  | StripePaymentIntentsCreate payment_intent_params
  | StripePaymentIntentsRetrieve "jval option"

fun is_db_call :: "call \<Rightarrow> bool" where
  "is_db_call (DbFind q so sk lmt) = True"
| "is_db_call (DbCountDocuments q) = True"
| "is_db_call DbFindAll = True"
| "is_db_call (DbFindById i) = True"
| "is_db_call (DbFindOneAndUpdate i b) = True"
| "is_db_call (StripeCustomersCreate p) = False"
| "is_db_call (StripePaymentIntentsCreate p) = False"
| "is_db_call (StripePaymentIntentsRetrieve i) = False"

text \<open>
  What lies outside the module: the regular-expression compiler, the conversion of a
  string to a number, the database's filter semantics and its failures (a lost
  connection, an id that is not an ObjectId), and the payment provider.
\<close>

record world =
  regex_valid :: "string \<Rightarrow> bool"
  string_to_number :: "string \<Rightarrow> number"
  matches :: "search_query \<Rightarrow> hotel \<Rightarrow> bool"
  db_throws :: "call \<Rightarrow> bool"
  customers_create :: "customer_params \<Rightarrow> error + customer"
  paymentIntents_create :: "payment_intent_params \<Rightarrow> error + payment_intent"
  paymentIntents_retrieve :: "jval option \<Rightarrow> error + payment_intent option"

text \<open>The state a request runs in: the hotel collection and the log of calls made so far.\<close>

record sys =
  hotels :: "hotel list"
  calls :: "call list"

definition record_call :: "call \<Rightarrow> sys \<Rightarrow> sys" where
  "record_call c s = s\<lparr>calls := calls s @ [c]\<rparr>"

text \<open>\<^verbatim>\<open>Number(v)\<close>, as the operator \<^verbatim>\<open>*\<close> applies it to an operand.\<close>

definition toNumber :: "world \<Rightarrow> jval option \<Rightarrow> number" where
  "toNumber w v =
     (case v of
        None \<Rightarrow> None
      | Some JNull \<Rightarrow> Some 0
      | Some (JBool b) \<Rightarrow> Some (if b then 1 else 0)
      | Some (JNum n) \<Rightarrow> Some n
      | Some (JStr s) \<Rightarrow> string_to_number w s
      | Some (JArr xs) \<Rightarrow> string_to_number w (toString (JArr xs))
      | Some (JObj kvs) \<Rightarrow> None)"

subsection \<open>The database operations the module uses\<close>

definition apply_sort :: "sort_options \<Rightarrow> hotel list \<Rightarrow> hotel list" where
  "apply_sort so hs =
     (case so of
        NoSort \<Rightarrow> hs
      | StarRatingDesc \<Rightarrow> sort_key (\<lambda>h. - starRating h) hs
      | PricePerNightAsc \<Rightarrow> sort_key pricePerNight hs
      | PricePerNightDesc \<Rightarrow> sort_key (\<lambda>h. - pricePerNight h) hs)"

text \<open>
  \<^verbatim>\<open>Hotel.find(query).sort(sortOptions).skip(skip).limit(pageSize)\<close>. The database
  rejects a skip that is not a non-negative number.
\<close>

definition Hotel_find ::
  "world \<Rightarrow> search_query \<Rightarrow> sort_options \<Rightarrow> number \<Rightarrow> nat \<Rightarrow> sys \<Rightarrow> (error + hotel list) \<times> sys" where
  "Hotel_find w q so skip lmt s =
     (let s' = record_call (DbFind q so skip lmt) s in
      if db_throws w (DbFind q so skip lmt) then (Inl DbError, s')
      else (case skip of
              None \<Rightarrow> (Inl DbError, s')
            | Some k \<Rightarrow>
                if k < 0 then (Inl DbError, s')
                else (Inr (take lmt (drop (nat k) (apply_sort so (filter (matches w q) (hotels s))))), s')))"

definition Hotel_countDocuments :: "world \<Rightarrow> search_query \<Rightarrow> sys \<Rightarrow> (error + nat) \<times> sys" where
  "Hotel_countDocuments w q s =
     (let s' = record_call (DbCountDocuments q) s in
      if db_throws w (DbCountDocuments q) then (Inl DbError, s')
      else (Inr (length (filter (matches w q) (hotels s))), s'))"

text \<open>\<^verbatim>\<open>Hotel.find().sort({ lastUpdated: -1 })\<close>\<close>

definition Hotel_findAll :: "world \<Rightarrow> sys \<Rightarrow> (error + hotel list) \<times> sys" where
  "Hotel_findAll w s =
     (let s' = record_call DbFindAll s in
      if db_throws w DbFindAll then (Inl DbError, s')
      else (Inr (sort_key (\<lambda>h. - lastUpdated h) (hotels s)), s'))"

definition Hotel_findById :: "world \<Rightarrow> string \<Rightarrow> sys \<Rightarrow> (error + hotel option) \<times> sys" where
  "Hotel_findById w i s =
     (let s' = record_call (DbFindById i) s in
      if db_throws w (DbFindById i) then (Inl DbError, s')
      else (Inr (find (\<lambda>h. doc_id h = i) (hotels s)), s'))"

text \<open>\<^verbatim>\<open>$push\<close> on the first document with the given id; the collection is left as it is when there is none.\<close>

fun push_booking :: "string \<Rightarrow> booking \<Rightarrow> hotel list \<Rightarrow> hotel list" where
  "push_booking i b [] = []"
| "push_booking i b (h # hs) =
     (if doc_id h = i then h\<lparr>bookings := bookings h @ [b]\<rparr> # hs else h # push_booking i b hs)"

text \<open>
  \<^verbatim>\<open>Hotel.findOneAndUpdate({ _id: hotelId }, { $push: { bookings: newBooking } }, { new: true })\<close>:
  the updated document, or \<^verbatim>\<open>null\<close> when no document has the id.
\<close>

definition Hotel_findOneAndUpdate ::
  "world \<Rightarrow> string \<Rightarrow> booking \<Rightarrow> sys \<Rightarrow> (error + hotel option) \<times> sys" where
  "Hotel_findOneAndUpdate w i b s =
     (let s' = record_call (DbFindOneAndUpdate i b) s in
      if db_throws w (DbFindOneAndUpdate i b) then (Inl DbError, s')
      else (Inr (find (\<lambda>h. doc_id h = i) (push_booking i b (hotels s))),
            s'\<lparr>hotels := push_booking i b (hotels s)\<rparr>))"

section \<open>Requests and responses\<close>

text \<open>
  \<open>userId\<close> is \<^verbatim>\<open>req.userId\<close>, which the \<^verbatim>\<open>verifyToken\<close> middleware of
  \<^verbatim>\<open>../middleware/auth\<close> sets from the verified token before the two booking handlers
  run; a request that fails the verification never reaches them. The two route
  parameters are strings, the body is the parsed JSON object.
\<close>

record request =
  params_id :: string
  params_hotelId :: string
  query :: "string \<rightharpoonup> qval"
  body :: "string \<rightharpoonup> jval"
  userId :: string

record pagination =
  total :: nat
  page :: number
  pages :: nat

datatype payload =
    Message string
  | Errors "string list"
  | Hotels "hotel list"
  | OneHotel hotel
  | SearchResponse "hotel list" pagination
  | PaymentIntentCreated string "string option" number

datatype response = Response nat payload

text \<open>\<^verbatim>\<open>Math.ceil(total / pageSize)\<close>\<close>

definition ceil_div :: "nat \<Rightarrow> nat \<Rightarrow> nat" where
  "ceil_div t n = nat \<lceil>real t / real n\<rceil>"

section \<open>The handlers\<close>

text \<open>
  A handler maps the state to the response it sends and the state it leaves. The
  response is \<open>None\<close> when an exception leaves the handler and nothing is sent.
\<close>

definition sortOptions_of :: "qval option \<Rightarrow> sort_options" where
  "sortOptions_of v =
     (if v = Some (QStr ''starRating'') then StarRatingDesc
      else if v = Some (QStr ''pricePerNightAsc'') then PricePerNightAsc
      else if v = Some (QStr ''pricePerNightDesc'') then PricePerNightDesc
      else NoSort)"

text \<open>\<^verbatim>\<open>req.query.page?.toString() || "1"\<close>\<close>

definition page_string :: "qval option \<Rightarrow> string" where
  "page_string v =
     (case v of
        None \<Rightarrow> ''1''
      | Some x \<Rightarrow> if qToString x = [] then ''1'' else qToString x)"

definition pageSize :: nat where
  "pageSize = 5"

text \<open>\<^verbatim>\<open>GET /search\<close>\<close>

definition search :: "world \<Rightarrow> request \<Rightarrow> sys \<Rightarrow> response option \<times> sys" where
  "search w req s =
     (case constructSearchQuery (regex_valid w) (query req) of
        Inl e \<Rightarrow> (Some (Response 500 (Message ''Something went wrong while searching hotels'')), s)
      | Inr q \<Rightarrow>
          (let sortOptions = sortOptions_of (query req ''sortOption'');
               pageNumber = parseInt (page_string (query req ''page''));
               skip = num_mul (num_sub pageNumber (Some 1)) (Some (int pageSize))
           in case Hotel_find w q sortOptions skip pageSize s of
                (Inl e, s1) \<Rightarrow>
                  (Some (Response 500 (Message ''Something went wrong while searching hotels'')), s1)
              | (Inr hs, s1) \<Rightarrow>
                  (case Hotel_countDocuments w q s1 of
                     (Inl e, s2) \<Rightarrow>
                       (Some (Response 500 (Message ''Something went wrong while searching hotels'')), s2)
                   | (Inr n, s2) \<Rightarrow>
                       (Some (Response 200 (SearchResponse hs
                          \<lparr>total = n, page = pageNumber, pages = ceil_div n pageSize\<rparr>)), s2))))"

text \<open>\<^verbatim>\<open>GET /\<close>\<close>

definition fetchAll :: "world \<Rightarrow> request \<Rightarrow> sys \<Rightarrow> response option \<times> sys" where
  "fetchAll w req s =
     (case Hotel_findAll w s of
        (Inl e, s1) \<Rightarrow> (Some (Response 500 (Message ''Error fetching hotels'')), s1)
      | (Inr hs, s1) \<Rightarrow> (Some (Response 200 (Hotels hs)), s1))"

text \<open>\<^verbatim>\<open>GET /:id\<close>, behind the validator \<^verbatim>\<open>param("id").notEmpty()\<close>\<close>

definition fetchOne :: "world \<Rightarrow> request \<Rightarrow> sys \<Rightarrow> response option \<times> sys" where
  "fetchOne w req s =
     (if params_id req = [] then (Some (Response 400 (Errors [''Hotel ID is required''])), s)
      else (case Hotel_findById w (params_id req) s of
              (Inl e, s1) \<Rightarrow> (Some (Response 500 (Message ''Error fetching hotel'')), s1)
            | (Inr None, s1) \<Rightarrow> (Some (Response 404 (Message ''Hotel not found'')), s1)
            | (Inr (Some h), s1) \<Rightarrow> (Some (Response 200 (OneHotel h)), s1)))"

definition test_customer :: customer_params where
  "test_customer =
     \<lparr>cust_name = ''Test User'',
      cust_address = \<lparr>line1 = ''123 Test Street'', addr_city = ''Hyderabad'', state = ''Telangana'',
                      addr_country = ''IN'', postal_code = ''500001''\<rparr>\<rparr>"

definition stripe_customers_create :: "world \<Rightarrow> customer_params \<Rightarrow> sys \<Rightarrow> (error + customer) \<times> sys" where
  "stripe_customers_create w p s = (customers_create w p, record_call (StripeCustomersCreate p) s)"

definition stripe_paymentIntents_create ::
  "world \<Rightarrow> payment_intent_params \<Rightarrow> sys \<Rightarrow> (error + payment_intent) \<times> sys" where
  "stripe_paymentIntents_create w p s =
     (paymentIntents_create w p, record_call (StripePaymentIntentsCreate p) s)"

definition stripe_paymentIntents_retrieve ::
  "world \<Rightarrow> jval option \<Rightarrow> sys \<Rightarrow> (error + payment_intent option) \<times> sys" where
  "stripe_paymentIntents_retrieve w i s =
     (paymentIntents_retrieve w i, record_call (StripePaymentIntentsRetrieve i) s)"

text \<open>
  \<^verbatim>\<open>POST /:hotelId/bookings/payment-intent\<close>. The lookup of the hotel stands before
  the \<^verbatim>\<open>try\<close> block, so an exception of the lookup leaves the handler.
\<close>

definition createPaymentIntent :: "world \<Rightarrow> request \<Rightarrow> sys \<Rightarrow> response option \<times> sys" where
  "createPaymentIntent w req s =
     (let numberOfNights = body req ''numberOfNights'';
          hotelId = params_hotelId req
      in case Hotel_findById w hotelId s of
           (Inl e, s1) \<Rightarrow> (None, s1)
         | (Inr None, s1) \<Rightarrow> (Some (Response 400 (Message ''Hotel not found'')), s1)
         | (Inr (Some h), s1) \<Rightarrow>
             (let totalCost = num_mul (Some (pricePerNight h)) (toNumber w numberOfNights)
              in case stripe_customers_create w test_customer s1 of
                   (Inl e, s2) \<Rightarrow> (Some (Response 500 (Message ''Error creating payment intent'')), s2)
                 | (Inr cust, s2) \<Rightarrow>
                     (case stripe_paymentIntents_create w
                             \<lparr>amount = num_mul totalCost (Some 100),
                              currency = ''inr'',
                              pi_customer = customer_id cust,
                              description = ''Booking at '' @ name h @ '' for '' @
                                            toString_opt numberOfNights @ '' nights'',
                              pi_metadata = [(''hotelId'', hotelId), (''userId'', userId req)]\<rparr> s2 of
                        (Inl e, s3) \<Rightarrow>
                          (Some (Response 500 (Message ''Error creating payment intent'')), s3)
                      | (Inr intent, s3) \<Rightarrow>
                          (Some (Response 200
                             (PaymentIntentCreated (intent_id intent) (client_secret intent) totalCost)), s3))))"

text \<open>\<^verbatim>\<open>POST /:hotelId/bookings\<close>\<close>

definition newBooking :: "request \<Rightarrow> booking" where
  "newBooking req = (body req)(''userId'' \<mapsto> JStr (userId req))"

text \<open>
  \<^verbatim>\<open>paymentIntent.metadata.hotelId !== hotelId || paymentIntent.metadata.userId !== req.userId\<close>;
  a key the metadata lack reads \<^verbatim>\<open>undefined\<close>, which differs from every string.
\<close>

definition metadata_mismatch :: "payment_intent \<Rightarrow> string \<Rightarrow> string \<Rightarrow> bool" where
  "metadata_mismatch intent hotelId uid =
     (map_of (metadata intent) ''hotelId'' \<noteq> Some hotelId \<or>
      map_of (metadata intent) ''userId'' \<noteq> Some uid)"

definition confirmBooking :: "world \<Rightarrow> request \<Rightarrow> sys \<Rightarrow> response option \<times> sys" where
  "confirmBooking w req s =
     (let paymentIntentId = body req ''paymentIntentId'';
          hotelId = params_hotelId req
      in case stripe_paymentIntents_retrieve w paymentIntentId s of
           (Inl e, s1) \<Rightarrow> (Some (Response 500 (Message ''Something went wrong'')), s1)
         | (Inr None, s1) \<Rightarrow> (Some (Response 400 (Message ''Payment intent not found'')), s1)
         | (Inr (Some intent), s1) \<Rightarrow>
             if metadata_mismatch intent hotelId (userId req)
             then (Some (Response 400 (Message ''Payment intent metadata mismatch'')), s1)
             else if status intent \<noteq> ''succeeded''
             then (Some (Response 400 (Message (''Payment not succeeded. Status: '' @ status intent))), s1)
             else (case Hotel_findOneAndUpdate w hotelId (newBooking req) s1 of
                     (Inl e, s2) \<Rightarrow> (Some (Response 500 (Message ''Something went wrong'')), s2)
                   | (Inr None, s2) \<Rightarrow> (Some (Response 404 (Message ''Hotel not found'')), s2)
                   | (Inr (Some h), s2) \<Rightarrow> (Some (Response 200 (Message ''Booking successful'')), s2)))"

section \<open>Predicates and sample data used in the statements\<close>

text \<open>The checks on a retrieved payment intent that the confirm handler makes before it writes.\<close>

definition intent_accepted :: "request \<Rightarrow> payment_intent \<Rightarrow> bool" where
  "intent_accepted req intent =
     (map_of (metadata intent) ''hotelId'' = Some (params_hotelId req) \<and>
      map_of (metadata intent) ''userId'' = Some (userId req) \<and>
      status intent = ''succeeded'')"

text \<open>The retrieval returned an intent, without an exception, and the intent passed the checks.\<close>

definition retrieved_accepted :: "world \<Rightarrow> request \<Rightarrow> bool" where
  "retrieved_accepted w req =
     (case paymentIntents_retrieve w (body req ''paymentIntentId'') of
        Inl e \<Rightarrow> False
      | Inr None \<Rightarrow> False
      | Inr (Some intent) \<Rightarrow> intent_accepted req intent)"

text \<open>The number of database calls among the calls logged between two states.\<close>

definition db_calls_made :: "sys \<Rightarrow> sys \<Rightarrow> nat" where
  "db_calls_made s s' = length (filter is_db_call (drop (length (calls s)) (calls s')))"

definition sample_hotel :: "string \<Rightarrow> int \<Rightarrow> hotel" where
  "sample_hotel i p =
     \<lparr>doc_id = i, name = ''Sea View'', city = ''Hyderabad'', country = ''India'',
      adultCount = 2, childCount = 1, facilities = [''Free WiFi''], hotel_type = ''Budget'',
      starRating = 3, pricePerNight = p, lastUpdated = 0, bookings = []\<rparr>"

definition sample_intent :: payment_intent where
  "sample_intent =
     \<lparr>intent_id = ''pi_1'', client_secret = Some ''pi_1_secret'',
      metadata = [(''hotelId'', ''h1''), (''userId'', ''u1'')], status = ''succeeded''\<rparr>"

text \<open>A conversion that reads decimal integers only, for the sample world.\<close>

definition decimal_number :: "string \<Rightarrow> number" where
  "decimal_number s =
     (let t = rev (dropWhile is_ws (rev (dropWhile is_ws s)));
          u = (if t \<noteq> [] \<and> (hd t = CHR ''-'' \<or> hd t = CHR ''+'') then tl t else t)
      in if t = [] then Some 0
         else if u \<noteq> [] \<and> list_all is_digit u then parseInt t
         else None)"

text \<open>
  A world in which nothing fails: every pattern but \<^verbatim>\<open>(\<close> compiles, every document
  matches every filter, the provider creates what it is asked for and knows one
  succeeded payment intent, \<^verbatim>\<open>pi_1\<close>, of user \<^verbatim>\<open>u1\<close> for hotel \<^verbatim>\<open>h1\<close>.
\<close>

definition sample_world :: world where
  "sample_world =
     \<lparr>regex_valid = (\<lambda>p. p \<noteq> ''(''),
      string_to_number = decimal_number,
      matches = (\<lambda>q h. True),
      db_throws = (\<lambda>c. False),
      customers_create = (\<lambda>p. Inr \<lparr>customer_id = ''cus_1''\<rparr>),
      paymentIntents_create = (\<lambda>p. Inr \<lparr>intent_id = ''pi_2'', client_secret = Some ''pi_2_secret'',
                                             metadata = pi_metadata p, status = ''requires_payment_method''\<rparr>),
      paymentIntents_retrieve = (\<lambda>i. if i = Some (JStr ''pi_1'') then Inr (Some sample_intent)
                                       else Inl StripeError)\<rparr>"

text \<open>The same world with a database that rejects the lookup of an id that is not an ObjectId.\<close>

definition strict_id_world :: world where
  "strict_id_world =
     sample_world\<lparr>db_throws := (\<lambda>c. case c of DbFindById i \<Rightarrow> i = ''abc'' | _ \<Rightarrow> False)\<rparr>"

definition sample_sys :: sys where
  "sample_sys = \<lparr>hotels = [sample_hotel ''h0'' 900, sample_hotel ''h1'' 1500], calls = []\<rparr>"

definition seven_hotels :: sys where
  "seven_hotels =
     \<lparr>hotels = [sample_hotel ''h0'' 900, sample_hotel ''h1'' 1500, sample_hotel ''h2'' 700,
                sample_hotel ''h3'' 1200, sample_hotel ''h4'' 800, sample_hotel ''h5'' 950,
                sample_hotel ''h6'' 1100],
      calls = []\<rparr>"

definition empty_request :: request where
  "empty_request =
     \<lparr>params_id = [], params_hotelId = [], query = Map.empty, body = Map.empty, userId = []\<rparr>"

text \<open>\<^verbatim>\<open>POST /h1/bookings\<close> by user \<^verbatim>\<open>u1\<close>; the body names the intent and claims another user.\<close>

definition confirm_request :: request where
  "confirm_request =
     empty_request\<lparr>params_hotelId := ''h1'', userId := ''u1'',
                   body := [''paymentIntentId'' \<mapsto> JStr ''pi_1'', ''userId'' \<mapsto> JStr ''mallory'']\<rparr>"

text \<open>The same request with the id of an intent the provider does not know.\<close>

definition unknown_intent_request :: request where
  "unknown_intent_request =
     confirm_request\<lparr>body := [''paymentIntentId'' \<mapsto> JStr ''pi_unknown'']\<rparr>"

text \<open>\<^verbatim>\<open>POST /h1/bookings/payment-intent\<close> for three nights, and the same for the id \<^verbatim>\<open>abc\<close>.\<close>

definition intent_request :: request where
  "intent_request =
     empty_request\<lparr>params_hotelId := ''h1'', userId := ''u1'',
                   body := [''numberOfNights'' \<mapsto> JNum 3]\<rparr>"

definition bad_id_intent_request :: request where
  "bad_id_intent_request = intent_request\<lparr>params_hotelId := ''abc''\<rparr>"

text \<open>Search requests: no parameter at all, \<^verbatim>\<open>?page=2\<close>, \<^verbatim>\<open>?page=0\<close>, \<^verbatim>\<open>?destination=(\<close>.\<close>

definition page2_request :: request where
  "page2_request = empty_request\<lparr>query := [''page'' \<mapsto> QStr ''2'']\<rparr>"

definition page0_request :: request where
  "page0_request = empty_request\<lparr>query := [''page'' \<mapsto> QStr ''0'']\<rparr>"

definition open_paren_request :: request where
  "open_paren_request = empty_request\<lparr>query := [''destination'' \<mapsto> QStr ''('']\<rparr>"


section \<open>Auxiliary facts\<close>

subsection \<open>Evaluation of the helpers\<close>

lemma parseInt_examples:
  "parseInt ''1'' = Some 1" "parseInt ''0'' = Some 0" "parseInt '' -12abc'' = Some (- 12)"
  "parseInt ''abc'' = None" "parseInt [] = None" "parseInt ''42'' = Some 42"
  by (simp_all add: parseInt_def is_ws_def is_digit_def digits_value_def)

lemma show_int_examples:
  "show_int 3 = ''3''" "show_int 120 = ''120''" "show_int (- 7) = ''-7''"
  by (simp_all add: show_int_def show_nat.simps)

subsection \<open>The update of the collection\<close>

lemma push_booking_absent:
  "find (\<lambda>h. doc_id h = i) hs = None \<Longrightarrow> push_booking i b hs = hs"
  by (induction hs) (auto split: if_splits)

lemma find_push_booking:
  "find (\<lambda>h. doc_id h = i) (push_booking i b hs) =
     map_option (\<lambda>h. h\<lparr>bookings := bookings h @ [b]\<rparr>) (find (\<lambda>h. doc_id h = i) hs)"
  by (induction hs) auto

lemma push_booking_update:
  "find (\<lambda>h. doc_id h = i) hs = Some h \<Longrightarrow>
     \<exists>k < length hs. hs ! k = h \<and> doc_id h = i \<and> (\<forall>j < k. doc_id (hs ! j) \<noteq> i) \<and>
        push_booking i b hs = hs[k := h\<lparr>bookings := bookings h @ [b]\<rparr>]"
proof (induction hs)
  case Nil
  then show ?case by simp
next
  case (Cons a hs)
  show ?case
  proof (cases "doc_id a = i")
    case True
    with Cons.prems have "a = h" by simp
    with True show ?thesis by (intro exI [of _ 0]) simp
  next
    case False
    with Cons.prems have "find (\<lambda>h. doc_id h = i) hs = Some h" by simp
    from Cons.IH [OF this] obtain k where k: "k < length hs" "hs ! k = h" "doc_id h = i"
      "\<forall>j < k. doc_id (hs ! j) \<noteq> i" "push_booking i b hs = hs[k := h\<lparr>bookings := bookings h @ [b]\<rparr>]"
      by blast
    have "\<forall>j < Suc k. doc_id ((a # hs) ! j) \<noteq> i"
      using False k(4) by (auto simp: less_Suc_eq_0_disj)
    with False k show ?thesis by (intro exI [of _ "Suc k"]) simp
  qed
qed

lemma appended_differs: "h = h\<lparr>bookings := bookings h @ [b]\<rparr> \<Longrightarrow> False"
proof -
  assume "h = h\<lparr>bookings := bookings h @ [b]\<rparr>"
  then have "bookings h = bookings (h\<lparr>bookings := bookings h @ [b]\<rparr>)" by simp
  then show False by simp
qed

subsection \<open>Unfolding the handlers\<close>

lemmas sample_defs =
  sample_world_def sample_sys_def sample_hotel_def sample_intent_def confirm_request_def
  unknown_intent_request_def empty_request_def strict_id_world_def intent_request_def
  bad_id_intent_request_def

lemmas search_sample_defs =
  seven_hotels_def page2_request_def page0_request_def open_paren_request_def

lemmas confirm_defs =
  confirmBooking_def metadata_mismatch_def stripe_paymentIntents_retrieve_def Hotel_findOneAndUpdate_def
  record_call_def newBooking_def Let_def

lemmas intent_defs =
  createPaymentIntent_def Hotel_findById_def stripe_customers_create_def
  stripe_paymentIntents_create_def record_call_def Let_def

lemmas search_defs =
  search_def Hotel_find_def Hotel_countDocuments_def record_call_def Let_def pageSize_def

subsection \<open>The confirm handler, case by case\<close>

lemma confirmBooking_retrieve_throws:
  "paymentIntents_retrieve w (body req ''paymentIntentId'') = Inl e \<Longrightarrow>
   confirmBooking w req s =
     (Some (Response 500 (Message ''Something went wrong'')),
      s\<lparr>calls := calls s @ [StripePaymentIntentsRetrieve (body req ''paymentIntentId'')]\<rparr>)"
  by (simp add: Let_def record_call_def confirmBooking_def metadata_mismatch_def stripe_paymentIntents_retrieve_def)

lemma confirmBooking_no_intent:
  "paymentIntents_retrieve w (body req ''paymentIntentId'') = Inr None \<Longrightarrow>
   confirmBooking w req s =
     (Some (Response 400 (Message ''Payment intent not found'')),
      s\<lparr>calls := calls s @ [StripePaymentIntentsRetrieve (body req ''paymentIntentId'')]\<rparr>)"
  by (simp add: Let_def record_call_def confirmBooking_def metadata_mismatch_def stripe_paymentIntents_retrieve_def)

lemma confirmBooking_rejected:
  "paymentIntents_retrieve w (body req ''paymentIntentId'') = Inr (Some intent) \<Longrightarrow>
   \<not> intent_accepted req intent \<Longrightarrow>
   \<exists>m. confirmBooking w req s =
     (Some (Response 400 (Message m)),
      s\<lparr>calls := calls s @ [StripePaymentIntentsRetrieve (body req ''paymentIntentId'')]\<rparr>)"
  by (auto simp add: Let_def record_call_def confirmBooking_def metadata_mismatch_def stripe_paymentIntents_retrieve_def intent_accepted_def)

lemma confirmBooking_update_throws:
  "paymentIntents_retrieve w (body req ''paymentIntentId'') = Inr (Some intent) \<Longrightarrow>
   intent_accepted req intent \<Longrightarrow>
   db_throws w (DbFindOneAndUpdate (params_hotelId req) (newBooking req)) \<Longrightarrow>
   confirmBooking w req s =
     (Some (Response 500 (Message ''Something went wrong'')),
      s\<lparr>calls := calls s @ [StripePaymentIntentsRetrieve (body req ''paymentIntentId''),
                             DbFindOneAndUpdate (params_hotelId req) (newBooking req)]\<rparr>)"
  by (simp add: Let_def record_call_def confirmBooking_def metadata_mismatch_def stripe_paymentIntents_retrieve_def intent_accepted_def
      Hotel_findOneAndUpdate_def)

lemma confirmBooking_no_hotel:
  "paymentIntents_retrieve w (body req ''paymentIntentId'') = Inr (Some intent) \<Longrightarrow>
   intent_accepted req intent \<Longrightarrow>
   \<not> db_throws w (DbFindOneAndUpdate (params_hotelId req) (newBooking req)) \<Longrightarrow>
   find (\<lambda>h. doc_id h = params_hotelId req) (hotels s) = None \<Longrightarrow>
   confirmBooking w req s =
     (Some (Response 404 (Message ''Hotel not found'')),
      s\<lparr>calls := calls s @ [StripePaymentIntentsRetrieve (body req ''paymentIntentId''),
                             DbFindOneAndUpdate (params_hotelId req) (newBooking req)]\<rparr>)"
  by (simp add: Let_def record_call_def confirmBooking_def metadata_mismatch_def stripe_paymentIntents_retrieve_def intent_accepted_def
      Hotel_findOneAndUpdate_def find_push_booking push_booking_absent record_call_def)

lemma confirmBooking_success:
  "paymentIntents_retrieve w (body req ''paymentIntentId'') = Inr (Some intent) \<Longrightarrow>
   intent_accepted req intent \<Longrightarrow>
   \<not> db_throws w (DbFindOneAndUpdate (params_hotelId req) (newBooking req)) \<Longrightarrow>
   find (\<lambda>h. doc_id h = params_hotelId req) (hotels s) = Some h \<Longrightarrow>
   confirmBooking w req s =
     (Some (Response 200 (Message ''Booking successful'')),
      s\<lparr>calls := calls s @ [StripePaymentIntentsRetrieve (body req ''paymentIntentId''),
                             DbFindOneAndUpdate (params_hotelId req) (newBooking req)],
        hotels := push_booking (params_hotelId req) (newBooking req) (hotels s)\<rparr>)"
  by (simp add: Let_def record_call_def confirmBooking_def metadata_mismatch_def stripe_paymentIntents_retrieve_def intent_accepted_def
      Hotel_findOneAndUpdate_def find_push_booking record_call_def)

lemma confirmBooking_cases:
  "(\<exists>e. paymentIntents_retrieve w (body req ''paymentIntentId'') = Inl e) \<or>
   paymentIntents_retrieve w (body req ''paymentIntentId'') = Inr None \<or>
   (\<exists>intent. paymentIntents_retrieve w (body req ''paymentIntentId'') = Inr (Some intent))"
  by (cases "paymentIntents_retrieve w (body req ''paymentIntentId'')") auto

lemma confirm_success_effect:
  assumes run: "confirmBooking w req s = (Some (Response 200 p), s')"
  shows "\<exists>h. find (\<lambda>h. doc_id h = params_hotelId req) (hotels s) = Some h \<and>
     hotels s' = push_booking (params_hotelId req) (newBooking req) (hotels s)"
  using run
  by (auto simp: Let_def record_call_def confirmBooking_def metadata_mismatch_def stripe_paymentIntents_retrieve_def
      Hotel_findOneAndUpdate_def find_push_booking
      split: sum.splits option.splits if_splits)

lemma confirmBooking_responds: "fst (confirmBooking w req s) \<noteq> None"
  by (simp add: confirm_defs split: sum.splits option.splits prod.splits)

lemma confirmBooking_db_calls: "db_calls_made s (snd (confirmBooking w req s)) \<le> 1"
  by (simp add: confirm_defs db_calls_made_def split: sum.splits option.splits prod.splits)

lemma confirm_sample_run:
  "confirmBooking sample_world confirm_request sample_sys =
     (Some (Response 200 (Message ''Booking successful'')),
      \<lparr>hotels = [sample_hotel ''h0'' 900,
                 (sample_hotel ''h1'' 1500)\<lparr>bookings := [newBooking confirm_request]\<rparr>],
       calls = [StripePaymentIntentsRetrieve (Some (JStr ''pi_1'')),
                DbFindOneAndUpdate ''h1'' (newBooking confirm_request)]\<rparr>)"
  by (simp add: confirm_defs sample_defs)

subsection \<open>The payment-intent handler\<close>

lemma createPaymentIntent_lookup_throws:
  "db_throws w (DbFindById (params_hotelId req)) \<Longrightarrow>
   createPaymentIntent w req s =
     (None, s\<lparr>calls := calls s @ [DbFindById (params_hotelId req)]\<rparr>)"
  by (simp add: intent_defs)



lemma createPaymentIntent_db_calls: "db_calls_made s (snd (createPaymentIntent w req s)) \<le> 1"
  by (simp add: intent_defs db_calls_made_def split: sum.splits option.splits prod.splits)


subsection \<open>The two fetch handlers\<close>

lemma fetchAll_responds: "fst (fetchAll w req s) \<noteq> None"
  by (simp add: fetchAll_def Hotel_findAll_def Let_def split: sum.splits prod.splits)

lemma fetchAll_throws:
  "db_throws w DbFindAll \<Longrightarrow>
   fst (fetchAll w req s) = Some (Response 500 (Message ''Error fetching hotels''))"
  by (simp add: fetchAll_def Hotel_findAll_def Let_def)

lemma fetchAll_db_calls: "db_calls_made s (snd (fetchAll w req s)) \<le> 1"
  by (simp add: fetchAll_def Hotel_findAll_def Let_def record_call_def db_calls_made_def
      split: sum.splits prod.splits)

lemma fetchOne_responds: "fst (fetchOne w req s) \<noteq> None"
  by (simp add: fetchOne_def Hotel_findById_def Let_def split: sum.splits option.splits prod.splits)

lemma fetchOne_throws:
  "params_id req \<noteq> [] \<Longrightarrow> db_throws w (DbFindById (params_id req)) \<Longrightarrow>
   fst (fetchOne w req s) = Some (Response 500 (Message ''Error fetching hotel''))"
  by (simp add: fetchOne_def Hotel_findById_def Let_def)

lemma fetchOne_db_calls: "db_calls_made s (snd (fetchOne w req s)) \<le> 1"
  by (simp add: fetchOne_def Hotel_findById_def Let_def record_call_def db_calls_made_def
      split: sum.splits option.splits prod.splits)

subsection \<open>The search handler\<close>

lemma ceil_div_5: "ceil_div t 5 = (t + 4) div 5"
proof -
  have "\<lceil>real t / 5\<rceil> = \<lceil>real_of_int (int t) / real_of_int 5\<rceil>" by simp
  also have "\<dots> = - (- int t div 5)" by (rule ceiling_divide_eq_div)
  also have "\<dots> = (int t + 4) div 5" by linarith
  finally have "\<lceil>real t / 5\<rceil> = int ((t + 4) div 5)" by (simp add: zdiv_int)
  then show ?thesis by (simp add: ceil_div_def)
qed

lemma parseInt_of_missing_page: "parseInt (page_string None) = Some 1"
  by (simp add: page_string_def parseInt_def is_ws_def is_digit_def digits_value_def)

lemma search_responds: "fst (search w req s) \<noteq> None"
  by (simp add: search_defs split: sum.splits option.splits prod.splits)

lemma search_query_throws:
  "constructSearchQuery (regex_valid w) (query req) = Inl e \<Longrightarrow>
   search w req s =
     (Some (Response 500 (Message ''Something went wrong while searching hotels'')), s)"
  by (simp add: search_def)

lemma search_db_calls: "db_calls_made s (snd (search w req s)) \<le> 2"
  by (simp add: search_defs db_calls_made_def split: sum.splits option.splits prod.splits)


lemma search_no_params_run:
  "calls (snd (search sample_world empty_request seven_hotels)) =
     [DbFind [] NoSort (Some 0) 5, DbCountDocuments []]"
  by (simp add: search_defs sample_defs search_sample_defs constructSearchQuery_def truthy_def
      sortOptions_of_def page_string_def parseInt_def is_ws_def is_digit_def digits_value_def
      num_mul_def num_sub_def)

lemma search_no_params_full:
  "search sample_world empty_request seven_hotels =
     (Some (Response 200 (SearchResponse
        [sample_hotel ''h0'' 900, sample_hotel ''h1'' 1500, sample_hotel ''h2'' 700,
         sample_hotel ''h3'' 1200, sample_hotel ''h4'' 800]
        \<lparr>total = 7, page = Some 1, pages = 2\<rparr>)),
      seven_hotels\<lparr>calls := [DbFind [] NoSort (Some 0) 5, DbCountDocuments []]\<rparr>)"
  by (simp add: search_defs sample_defs search_sample_defs constructSearchQuery_def truthy_def
      sortOptions_of_def page_string_def parseInt_def is_ws_def is_digit_def digits_value_def
      num_mul_def num_sub_def apply_sort_def ceil_div_5 qToString_def)


subsection \<open>The filter\<close>









section \<open>The claims\<close>

text \<open>
  Claim C1, as amended. The confirm handler appends the booking to the bookings of the
  hotel named in the URL if and only if the retrieval of the payment intent returns an
  intent without throwing, the intent's metadata name this hotel and this user, its
  status is \<^verbatim>\<open>succeeded\<close>, the update does not throw and a hotel with the id exists;
  exactly then the response is 200. In every other case the collection is unchanged and
  the response is 400 (no intent, a metadata mismatch, a status other than succeeded),
  404 (no hotel with the id) or 500 (the retrieval or the update threw).
\<close>

theorem confirmBooking_appends_iff:
  assumes run: "confirmBooking w req s = (r, s')"
  shows
    "((\<exists>h. find (\<lambda>h. doc_id h = params_hotelId req) (hotels s) = Some h \<and>
           find (\<lambda>h. doc_id h = params_hotelId req) (hotels s') =
             Some (h\<lparr>bookings := bookings h @ [newBooking req]\<rparr>))
       \<longleftrightarrow>
       (retrieved_accepted w req \<and>
        \<not> db_throws w (DbFindOneAndUpdate (params_hotelId req) (newBooking req)) \<and>
        find (\<lambda>h. doc_id h = params_hotelId req) (hotels s) \<noteq> None)) \<and>
     (r = Some (Response 200 (Message ''Booking successful''))
       \<longleftrightarrow>
       (retrieved_accepted w req \<and>
        \<not> db_throws w (DbFindOneAndUpdate (params_hotelId req) (newBooking req)) \<and>
        find (\<lambda>h. doc_id h = params_hotelId req) (hotels s) \<noteq> None)) \<and>
     (r \<noteq> Some (Response 200 (Message ''Booking successful'')) \<longrightarrow>
        hotels s' = hotels s \<and>
        ((\<exists>m. r = Some (Response 400 (Message m))) \<or>
         r = Some (Response 404 (Message ''Hotel not found'')) \<or>
         r = Some (Response 500 (Message ''Something went wrong'')))) \<and>
     ((\<exists>m. r = Some (Response 400 (Message m)))
       \<longleftrightarrow>
       (\<exists>x. paymentIntents_retrieve w (body req ''paymentIntentId'') = Inr x) \<and>
       \<not> retrieved_accepted w req) \<and>
     (r = Some (Response 404 (Message ''Hotel not found''))
       \<longleftrightarrow>
       (retrieved_accepted w req \<and>
        \<not> db_throws w (DbFindOneAndUpdate (params_hotelId req) (newBooking req)) \<and>
        find (\<lambda>h. doc_id h = params_hotelId req) (hotels s) = None)) \<and>
     (r = Some (Response 500 (Message ''Something went wrong''))
       \<longleftrightarrow>
       ((\<exists>e. paymentIntents_retrieve w (body req ''paymentIntentId'') = Inl e) \<or>
        (retrieved_accepted w req \<and>
         db_throws w (DbFindOneAndUpdate (params_hotelId req) (newBooking req)))))"
proof -
  let ?P = "\<lambda>h. doc_id h = params_hotelId req"
  let ?upd = "DbFindOneAndUpdate (params_hotelId req) (newBooking req)"
  consider
      (throws) e where "paymentIntents_retrieve w (body req ''paymentIntentId'') = Inl e"
    | (null) "paymentIntents_retrieve w (body req ''paymentIntentId'') = Inr None"
    | (rejected) intent where
        "paymentIntents_retrieve w (body req ''paymentIntentId'') = Inr (Some intent)"
        "\<not> intent_accepted req intent"
    | (upd_throws) intent where
        "paymentIntents_retrieve w (body req ''paymentIntentId'') = Inr (Some intent)"
        "intent_accepted req intent" "db_throws w ?upd"
    | (missing) intent where
        "paymentIntents_retrieve w (body req ''paymentIntentId'') = Inr (Some intent)"
        "intent_accepted req intent" "\<not> db_throws w ?upd" "find ?P (hotels s) = None"
    | (ok) intent h where
        "paymentIntents_retrieve w (body req ''paymentIntentId'') = Inr (Some intent)"
        "intent_accepted req intent" "\<not> db_throws w ?upd" "find ?P (hotels s) = Some h"
    using confirmBooking_cases [of w req] by (cases "find ?P (hotels s)") blast+
  then show ?thesis
  proof cases
    case throws
    from confirmBooking_retrieve_throws [OF throws, of s] run
    have "r = Some (Response 500 (Message ''Something went wrong''))" "hotels s' = hotels s"
      by auto
    moreover have "\<not> retrieved_accepted w req"
      using throws by (simp add: retrieved_accepted_def)
    ultimately show ?thesis
      using throws by (auto dest: appended_differs)
  next
    case null
    from confirmBooking_no_intent [OF null, of s] run
    have "r = Some (Response 400 (Message ''Payment intent not found''))" "hotels s' = hotels s"
      by auto
    moreover have "\<not> retrieved_accepted w req"
      using null by (simp add: retrieved_accepted_def)
    ultimately show ?thesis
      using null by (auto dest: appended_differs)
  next
    case rejected
    from confirmBooking_rejected [OF rejected, of s] run
    obtain m where "r = Some (Response 400 (Message m))" "hotels s' = hotels s"
      by auto
    moreover have "\<not> retrieved_accepted w req"
      using rejected by (simp add: retrieved_accepted_def)
    ultimately show ?thesis
      using rejected by (auto dest: appended_differs)
  next
    case upd_throws
    from confirmBooking_update_throws [OF upd_throws, of s] run
    have "r = Some (Response 500 (Message ''Something went wrong''))" "hotels s' = hotels s"
      by auto
    moreover have "retrieved_accepted w req"
      using upd_throws by (simp add: retrieved_accepted_def)
    ultimately show ?thesis
      using upd_throws by (auto dest: appended_differs)
  next
    case missing
    from confirmBooking_no_hotel [OF missing, of ] run
    have "r = Some (Response 404 (Message ''Hotel not found''))" "hotels s' = hotels s"
      by auto
    moreover have "retrieved_accepted w req"
      using missing by (simp add: retrieved_accepted_def)
    ultimately show ?thesis
      using missing by auto
  next
    case ok
    from confirmBooking_success [OF ok] run
    have "r = Some (Response 200 (Message ''Booking successful''))"
      "hotels s' = push_booking (params_hotelId req) (newBooking req) (hotels s)"
      by auto
    moreover have "retrieved_accepted w req"
      using ok by (simp add: retrieved_accepted_def)
    ultimately show ?thesis
      using ok by (auto simp: find_push_booking)
  qed
qed

theorem confirmBooking_appends_iff_witness:
  "fst (confirmBooking sample_world confirm_request sample_sys) =
     Some (Response 200 (Message ''Booking successful'')) \<and>
   retrieved_accepted sample_world confirm_request \<and>
   (\<exists>h. find (\<lambda>h. doc_id h = params_hotelId confirm_request) (hotels sample_sys) = Some h \<and>
        find (\<lambda>h. doc_id h = params_hotelId confirm_request)
          (hotels (snd (confirmBooking sample_world confirm_request sample_sys))) =
        Some (h\<lparr>bookings := bookings h @ [newBooking confirm_request]\<rparr>))"
proof -
  have run: "confirmBooking sample_world confirm_request sample_sys =
      (Some (Response 200 (Message ''Booking successful'')),
       snd (confirmBooking sample_world confirm_request sample_sys))"
    by (simp add: confirm_sample_run)
  note t = confirmBooking_appends_iff [OF run]
  from t have acc: "retrieved_accepted sample_world confirm_request"
    by blast
  from t have app:
    "\<exists>h. find (\<lambda>h. doc_id h = params_hotelId confirm_request) (hotels sample_sys) = Some h \<and>
        find (\<lambda>h. doc_id h = params_hotelId confirm_request)
          (hotels (snd (confirmBooking sample_world confirm_request sample_sys))) =
        Some (h\<lparr>bookings := bookings h @ [newBooking confirm_request]\<rparr>)"
    by blast
  have "fst (confirmBooking sample_world confirm_request sample_sys) =
      Some (Response 200 (Message ''Booking successful''))"
    by (simp add: confirm_sample_run)
  with acc app show ?thesis by blast
qed

text \<open>
  Claim C1 as written allows only 400 and 404 when nothing is appended. The provider
  throws for an intent id it does not know, and the handler then answers 500.
\<close>

theorem confirmBooking_unknown_intent_500:
  "\<not> retrieved_accepted sample_world unknown_intent_request \<and>
   fst (confirmBooking sample_world unknown_intent_request sample_sys) =
     Some (Response 500 (Message ''Something went wrong'')) \<and>
   hotels (snd (confirmBooking sample_world unknown_intent_request sample_sys)) = hotels sample_sys"
  by (simp add: confirm_defs sample_defs retrieved_accepted_def)

text \<open>
  Claim C2 asks that no exception leaves a handler without a 500 response. In the
  payment-intent handler the lookup of the hotel stands before the \<^verbatim>\<open>try\<close> block:
  when the lookup throws, the handler sends no response at all. The other four handlers
  always respond, and answer 500 with a message when the same lookup, the listing, the
  construction of the filter or the retrieval of the intent throws.
\<close>

theorem createPaymentIntent_exception_escapes:
  "(db_throws w (DbFindById (params_hotelId req)) \<longrightarrow>
      fst (createPaymentIntent w req s) = None \<and>
      snd (createPaymentIntent w req s) =
        s\<lparr>calls := calls s @ [DbFindById (params_hotelId req)]\<rparr>) \<and>
   (params_id req \<noteq> [] \<and> db_throws w (DbFindById (params_id req)) \<longrightarrow>
      fst (fetchOne w req s) = Some (Response 500 (Message ''Error fetching hotel''))) \<and>
   (db_throws w DbFindAll \<longrightarrow>
      fst (fetchAll w req s) = Some (Response 500 (Message ''Error fetching hotels''))) \<and>
   ((\<exists>e. constructSearchQuery (regex_valid w) (query req) = Inl e) \<longrightarrow>
      fst (search w req s) =
        Some (Response 500 (Message ''Something went wrong while searching hotels''))) \<and>
   ((\<exists>e. paymentIntents_retrieve w (body req ''paymentIntentId'') = Inl e) \<longrightarrow>
      fst (confirmBooking w req s) = Some (Response 500 (Message ''Something went wrong''))) \<and>
   fst (search w req s) \<noteq> None \<and>
   fst (fetchAll w req s) \<noteq> None \<and>
   fst (fetchOne w req s) \<noteq> None \<and>
   fst (confirmBooking w req s) \<noteq> None"
proof (intro conjI impI)
  show "fst (createPaymentIntent w req s) = None"
    if "db_throws w (DbFindById (params_hotelId req))"
    using that by (simp add: createPaymentIntent_lookup_throws)
  show "snd (createPaymentIntent w req s) = s\<lparr>calls := calls s @ [DbFindById (params_hotelId req)]\<rparr>"
    if "db_throws w (DbFindById (params_hotelId req))"
    using that by (simp add: createPaymentIntent_lookup_throws)
  show "fst (fetchOne w req s) = Some (Response 500 (Message ''Error fetching hotel''))"
    if "params_id req \<noteq> [] \<and> db_throws w (DbFindById (params_id req))"
    using that by (simp add: fetchOne_throws)
  show "fst (fetchAll w req s) = Some (Response 500 (Message ''Error fetching hotels''))"
    if "db_throws w DbFindAll"
    using that by (rule fetchAll_throws)
  show "fst (search w req s) =
      Some (Response 500 (Message ''Something went wrong while searching hotels''))"
    if "\<exists>e. constructSearchQuery (regex_valid w) (query req) = Inl e"
    using that by (auto simp: search_query_throws)
  show "fst (confirmBooking w req s) = Some (Response 500 (Message ''Something went wrong''))"
    if "\<exists>e. paymentIntents_retrieve w (body req ''paymentIntentId'') = Inl e"
    using that by (auto simp: confirmBooking_retrieve_throws)
qed (rule search_responds fetchAll_responds fetchOne_responds confirmBooking_responds)+

theorem createPaymentIntent_exception_escapes_witness:
  "db_throws strict_id_world (DbFindById (params_hotelId bad_id_intent_request)) \<and>
   fst (createPaymentIntent strict_id_world bad_id_intent_request sample_sys) = None \<and>
   snd (createPaymentIntent strict_id_world bad_id_intent_request sample_sys) =
     sample_sys\<lparr>calls := [DbFindById ''abc'']\<rparr>"
proof -
  have t: "db_throws strict_id_world (DbFindById (params_hotelId bad_id_intent_request))"
    by (simp add: sample_defs)
  with createPaymentIntent_exception_escapes
    [of strict_id_world bad_id_intent_request sample_sys]
  have "fst (createPaymentIntent strict_id_world bad_id_intent_request sample_sys) = None"
    "snd (createPaymentIntent strict_id_world bad_id_intent_request sample_sys) =
      sample_sys\<lparr>calls := calls sample_sys @ [DbFindById (params_hotelId bad_id_intent_request)]\<rparr>"
    by blast+
  with t show ?thesis by (simp add: sample_defs)
qed

text \<open>
  Claim C3. Confirming is not idempotent: there are a world, a request and a collection
  for which the same request, sent twice, is answered 200 twice and leaves the hotel
  with two more bookings than before.
\<close>

theorem confirmBooking_not_idempotent:
  "\<exists>w req s h.
     find (\<lambda>h. doc_id h = params_hotelId req) (hotels s) = Some h \<and>
     fst (confirmBooking w req s) = Some (Response 200 (Message ''Booking successful'')) \<and>
     fst (confirmBooking w req (snd (confirmBooking w req s))) =
       Some (Response 200 (Message ''Booking successful'')) \<and>
     find (\<lambda>h. doc_id h = params_hotelId req)
       (hotels (snd (confirmBooking w req (snd (confirmBooking w req s))))) =
       Some (h\<lparr>bookings := bookings h @ [newBooking req, newBooking req]\<rparr>)"
proof (intro exI conjI)
  show "find (\<lambda>h. doc_id h = params_hotelId confirm_request) (hotels sample_sys) =
      Some (sample_hotel ''h1'' 1500)"
    by (simp add: sample_defs)
  show "fst (confirmBooking sample_world confirm_request sample_sys) =
      Some (Response 200 (Message ''Booking successful''))"
    by (simp add: confirm_sample_run)
  show "fst (confirmBooking sample_world confirm_request
        (snd (confirmBooking sample_world confirm_request sample_sys))) =
      Some (Response 200 (Message ''Booking successful''))"
    by (simp add: confirm_sample_run) (simp add: confirm_defs sample_defs)
  show "find (\<lambda>h. doc_id h = params_hotelId confirm_request)
       (hotels (snd (confirmBooking sample_world confirm_request
          (snd (confirmBooking sample_world confirm_request sample_sys))))) =
      Some ((sample_hotel ''h1'' 1500)
        \<lparr>bookings := bookings (sample_hotel ''h1'' 1500) @
           [newBooking confirm_request, newBooking confirm_request]\<rparr>)"
    by (simp add: confirm_sample_run) (simp add: confirm_defs sample_defs)
qed








text \<open>
  Claim C7, as amended. A request makes at most two database calls in the search handler
  and at most one in every other handler.
\<close>

theorem db_calls_per_request:
  "db_calls_made s (snd (search w req s)) \<le> 2 \<and>
   db_calls_made s (snd (fetchAll w req s)) \<le> 1 \<and>
   db_calls_made s (snd (fetchOne w req s)) \<le> 1 \<and>
   db_calls_made s (snd (createPaymentIntent w req s)) \<le> 1 \<and>
   db_calls_made s (snd (confirmBooking w req s)) \<le> 1"
  by (intro conjI search_db_calls fetchAll_db_calls fetchOne_db_calls
      createPaymentIntent_db_calls confirmBooking_db_calls)

text \<open>
  Claim C7 as written allows one database call. A search request without parameters
  makes two: the \<^verbatim>\<open>find\<close> and the \<^verbatim>\<open>countDocuments\<close>.
\<close>

theorem search_makes_two_db_calls:
  "db_calls_made seven_hotels (snd (search sample_world empty_request seven_hotels)) = 2"
  by (simp add: db_calls_made_def search_no_params_run) (simp add: seven_hotels_def)

text \<open>
  Claim C8. The only booking the confirm handler writes is the request body with
  \<^verbatim>\<open>userId\<close> set to the authenticated user's id, whatever \<^verbatim>\<open>userId\<close> the body
  carried: the collection is either unchanged or has this booking pushed, and every
  update the handler sends to the database carries a booking with this \<^verbatim>\<open>userId\<close>.
\<close>

theorem confirmBooking_userId:
  assumes run: "confirmBooking w req s = (r, s')"
  shows
    "newBooking req ''userId'' = Some (JStr (userId req)) \<and>
     (\<forall>k. k \<noteq> ''userId'' \<longrightarrow> newBooking req k = body req k) \<and>
     (hotels s' = hotels s \<or>
      hotels s' = push_booking (params_hotelId req) (newBooking req) (hotels s)) \<and>
     (\<forall>i b. DbFindOneAndUpdate i b \<in> set (drop (length (calls s)) (calls s')) \<longrightarrow>
            b ''userId'' = Some (JStr (userId req)))"
proof -
  have b: "newBooking req ''userId'' = Some (JStr (userId req))"
    by (simp add: newBooking_def)
  have rest: "\<forall>k. k \<noteq> ''userId'' \<longrightarrow> newBooking req k = body req k"
    by (simp add: newBooking_def)
  have "s' = snd (confirmBooking w req s)"
    using run by simp
  then have eff:
    "(hotels s' = hotels s \<or>
      hotels s' = push_booking (params_hotelId req) (newBooking req) (hotels s)) \<and>
     set (drop (length (calls s)) (calls s')) \<subseteq>
       {StripePaymentIntentsRetrieve (body req ''paymentIntentId''),
        DbFindOneAndUpdate (params_hotelId req) (newBooking req)}"
    by (auto simp: confirm_defs split: sum.splits option.splits if_splits)
  then have "\<forall>i b. DbFindOneAndUpdate i b \<in> set (drop (length (calls s)) (calls s')) \<longrightarrow>
      b = newBooking req"
    by auto
  with b rest eff show ?thesis by blast
qed

theorem confirmBooking_userId_witness:
  "body confirm_request ''userId'' = Some (JStr ''mallory'') \<and>
   userId confirm_request = ''u1'' \<and>
   hotels (snd (confirmBooking sample_world confirm_request sample_sys)) =
     [sample_hotel ''h0'' 900,
      (sample_hotel ''h1'' 1500)\<lparr>bookings := [newBooking confirm_request]\<rparr>] \<and>
   newBooking confirm_request ''userId'' = Some (JStr ''u1'') \<and>
   DbFindOneAndUpdate ''h1'' (newBooking confirm_request) \<in>
     set (drop (length (calls sample_sys))
       (calls (snd (confirmBooking sample_world confirm_request sample_sys))))"
proof -
  have run: "confirmBooking sample_world confirm_request sample_sys =
      (fst (confirmBooking sample_world confirm_request sample_sys),
       snd (confirmBooking sample_world confirm_request sample_sys))"
    by simp
  have "newBooking confirm_request ''userId'' = Some (JStr (userId confirm_request))"
    using confirmBooking_userId [OF run] by blast
  then show ?thesis
    by (simp add: confirm_sample_run) (simp add: sample_defs)
qed

text \<open>
  Claim C9. After a confirm request answered with 200, the collection differs from the
  one before in one document only, the first with the id of the URL; in that document
  only the bookings changed, by one booking appended at the end.
\<close>

theorem confirmBooking_frame:
  assumes run: "confirmBooking w req s = (Some (Response 200 p), s')"
  shows
    "\<exists>k < length (hotels s).
        doc_id (hotels s ! k) = params_hotelId req \<and>
        (\<forall>j < k. doc_id (hotels s ! j) \<noteq> params_hotelId req) \<and>
        hotels s' =
          (hotels s)[k := (hotels s ! k)\<lparr>bookings := bookings (hotels s ! k) @ [newBooking req]\<rparr>] \<and>
        length (hotels s') = length (hotels s) \<and>
        (\<forall>j < length (hotels s). j \<noteq> k \<longrightarrow> hotels s' ! j = hotels s ! j) \<and>
        bookings (hotels s' ! k) = bookings (hotels s ! k) @ [newBooking req] \<and>
        hotels s' ! k = (hotels s ! k)\<lparr>bookings := bookings (hotels s' ! k)\<rparr>"
proof -
  let ?P = "\<lambda>h. doc_id h = params_hotelId req"
  from confirm_success_effect [OF run]
  obtain h where h: "find ?P (hotels s) = Some h"
    and s': "hotels s' = push_booking (params_hotelId req) (newBooking req) (hotels s)"
    by blast
  from push_booking_update [OF h, of "newBooking req"] obtain k where k:
    "k < length (hotels s)" "hotels s ! k = h" "doc_id h = params_hotelId req"
    "\<forall>j < k. doc_id (hotels s ! j) \<noteq> params_hotelId req"
    "push_booking (params_hotelId req) (newBooking req) (hotels s) =
       (hotels s)[k := h\<lparr>bookings := bookings h @ [newBooking req]\<rparr>]"
    by blast
  show ?thesis
    using k s' by (intro exI [of _ k]) simp
qed

theorem confirmBooking_frame_witness:
  "confirmBooking sample_world confirm_request sample_sys =
     (Some (Response 200 (Message ''Booking successful'')),
      snd (confirmBooking sample_world confirm_request sample_sys)) \<and>
   (\<exists>k < length (hotels sample_sys).
      doc_id (hotels sample_sys ! k) = params_hotelId confirm_request \<and>
      hotels (snd (confirmBooking sample_world confirm_request sample_sys)) =
        (hotels sample_sys)[k := (hotels sample_sys ! k)
           \<lparr>bookings := bookings (hotels sample_sys ! k) @ [newBooking confirm_request]\<rparr>])"
proof -
  have run: "confirmBooking sample_world confirm_request sample_sys =
      (Some (Response 200 (Message ''Booking successful'')),
       snd (confirmBooking sample_world confirm_request sample_sys))"
    by (simp add: confirm_sample_run)
  from confirmBooking_frame [OF run] run show ?thesis
    by blast
qed

text \<open>
  Claim C10, as amended. For a search request without a page parameter the page number
  is 1 and every \<^verbatim>\<open>find\<close> the handler sends skips 0 documents. When the filter is
  constructed and neither database call throws, the response is 200, its data start at
  the first matching document and its pagination reports page 1; when the construction
  of the filter or a database call throws, the response is 500.
\<close>

theorem search_default_page:
  assumes absent: "query req ''page'' = None"
    and run: "search w req s = (r, s')"
  shows
    "parseInt (page_string (query req ''page'')) = Some 1 \<and>
     (\<forall>q so k l. DbFind q so k l \<in> set (drop (length (calls s)) (calls s')) \<longrightarrow> k = Some 0) \<and>
     (\<forall>q. constructSearchQuery (regex_valid w) (query req) = Inr q \<and>
          \<not> db_throws w (DbFind q (sortOptions_of (query req ''sortOption'')) (Some 0) 5) \<and>
          \<not> db_throws w (DbCountDocuments q) \<longrightarrow>
          r = Some (Response 200 (SearchResponse
                (take 5 (apply_sort (sortOptions_of (query req ''sortOption''))
                   (filter (matches w q) (hotels s))))
                \<lparr>total = length (filter (matches w q) (hotels s)),
                 page = Some 1,
                 pages = nat \<lceil>real (length (filter (matches w q) (hotels s))) / 5\<rceil>\<rparr>))) \<and>
     ((\<exists>e. constructSearchQuery (regex_valid w) (query req) = Inl e) \<or>
      (\<exists>q. constructSearchQuery (regex_valid w) (query req) = Inr q \<and>
           (db_throws w (DbFind q (sortOptions_of (query req ''sortOption'')) (Some 0) 5) \<or>
            db_throws w (DbCountDocuments q))) \<longrightarrow>
      r = Some (Response 500 (Message ''Something went wrong while searching hotels'')))"
proof -
  have pn: "parseInt (page_string (query req ''page'')) = Some 1"
    using absent by (simp add: parseInt_of_missing_page)
  have rs: "r = fst (search w req s)" "s' = snd (search w req s)"
    using run by simp_all
  have skips: "\<forall>q so k l. DbFind q so k l \<in> set (drop (length (calls s)) (calls s')) \<longrightarrow> k = Some 0"
    unfolding rs using pn
    by (auto simp: search_defs num_mul_def num_sub_def split: sum.splits option.splits if_splits)
  have ok: "\<forall>q. constructSearchQuery (regex_valid w) (query req) = Inr q \<and>
          \<not> db_throws w (DbFind q (sortOptions_of (query req ''sortOption'')) (Some 0) 5) \<and>
          \<not> db_throws w (DbCountDocuments q) \<longrightarrow>
          r = Some (Response 200 (SearchResponse
                (take 5 (apply_sort (sortOptions_of (query req ''sortOption''))
                   (filter (matches w q) (hotels s))))
                \<lparr>total = length (filter (matches w q) (hotels s)),
                 page = Some 1,
                 pages = nat \<lceil>real (length (filter (matches w q) (hotels s))) / 5\<rceil>\<rparr>))"
    unfolding rs using pn
    by (simp add: search_defs num_mul_def num_sub_def ceil_div_def)
  have bad: "(\<exists>e. constructSearchQuery (regex_valid w) (query req) = Inl e) \<or>
      (\<exists>q. constructSearchQuery (regex_valid w) (query req) = Inr q \<and>
           (db_throws w (DbFind q (sortOptions_of (query req ''sortOption'')) (Some 0) 5) \<or>
            db_throws w (DbCountDocuments q))) \<longrightarrow>
      r = Some (Response 500 (Message ''Something went wrong while searching hotels''))"
    unfolding rs using pn
    by (auto simp: search_defs num_mul_def num_sub_def)
  from pn skips ok bad show ?thesis by blast
qed

theorem search_default_page_witness:
  "query empty_request ''page'' = None \<and>
   parseInt (page_string (query empty_request ''page'')) = Some 1 \<and>
   search sample_world empty_request seven_hotels =
     (Some (Response 200 (SearchResponse
        [sample_hotel ''h0'' 900, sample_hotel ''h1'' 1500, sample_hotel ''h2'' 700,
         sample_hotel ''h3'' 1200, sample_hotel ''h4'' 800]
        \<lparr>total = 7, page = Some 1, pages = 2\<rparr>)),
      seven_hotels\<lparr>calls := [DbFind [] NoSort (Some 0) 5, DbCountDocuments []]\<rparr>)"
proof -
  have absent: "query empty_request ''page'' = None"
    by (simp add: sample_defs)
  have run: "search sample_world empty_request seven_hotels =
      (fst (search sample_world empty_request seven_hotels),
       snd (search sample_world empty_request seven_hotels))"
    by simp
  from search_default_page [OF absent run]
  have "parseInt (page_string (query empty_request ''page'')) = Some 1"
    by blast
  with absent show ?thesis
    by (simp add: search_no_params_full)
qed

text \<open>
  Claim C10 as written promises the pagination for every request without a page
  parameter. With \<^verbatim>\<open>?destination=(\<close> the pattern does not compile, no database
  call is made and the response is 500.
\<close>

theorem search_invalid_pattern_500:
  "query open_paren_request ''page'' = None \<and>
   search sample_world open_paren_request seven_hotels =
     (Some (Response 500 (Message ''Something went wrong while searching hotels'')), seven_hotels)"
  by (simp add: search_def sample_defs search_sample_defs constructSearchQuery_def truthy_def
      qToString_def)

end
